theory Spec2Isabelle
  imports Main "HOL-Library.AList"
begin

section \<open>The OpenAI provider adapter (core/llm/llms/OpenAI.ts)\<close>

text \<open>
  A shallow embedding of the class \<open>OpenAI\<close>: the message and argument converters,
  the endpoint resolver, the legacy and the chat streamer, the dispatcher and
  \<open>_complete\<close>. Method names lose their leading underscore.

  What the class takes from outside is a parameter of the model:
  \<^item> the fields of \<open>this\<close> that \<open>BaseLLM\<close> supplies are the record \<open>llm\<close>;
  \<^item> the platform's \<open>new URL(rel, base)\<close>, the transport (\<open>this.fetch\<close> followed by
    \<open>streamSse\<close>) and the rendering of a number as a string are the record \<open>externals\<close>;
  \<^item> an event stream is the finite list of the events it delivers; an async generator is
    the list of the values it yields together with the exception that ends it, if any.
\<close>

subsection \<open>Exceptions\<close>

datatype error = Error string | TypeError string

subsection \<open>Strings and arrays\<close>

text \<open>\<open>String.prototype.startsWith\<close> and \<open>String.prototype.includes\<close>.\<close>

fun startsWith :: "string \<Rightarrow> string \<Rightarrow> bool" where
  "startsWith s [] = True"
| "startsWith [] (p # ps) = False"
| "startsWith (c # cs) (p # ps) = (c = p \<and> startsWith cs ps)"

fun str_includes :: "string \<Rightarrow> string \<Rightarrow> bool" where
  "str_includes [] p = (p = [])"
| "str_includes (c # cs) p = (startsWith (c # cs) p \<or> str_includes cs p)"

text \<open>\<open>Array.prototype.includes\<close> on an array of strings, and \<open>Array.prototype.join\<close>.\<close>

definition array_includes :: "string list \<Rightarrow> string \<Rightarrow> bool" where
  "array_includes xs x = (x \<in> set xs)"

fun join :: "string \<Rightarrow> string list \<Rightarrow> string" where
  "join sep [] = []"
| "join sep [x] = x"
| "join sep (x # y # ys) = x @ sep @ join sep (y # ys)"

subsection \<open>JavaScript values\<close>

text \<open>
  The values of type \<open>any\<close> that the parsed events carry. \<open>'n\<close> is the type of
  numbers, with \<open>0\<close> its only falsy element (\<open>JSON.parse\<close> yields no \<open>NaN\<close>, and
  \<open>-0\<close> behaves as \<open>0\<close> in every operation used here). An object is the list of
  its own properties.
\<close>

datatype 'n jsval =
    JUndefined
  | JNull
  | JBool bool
  | JNum 'n
  | JStr string
  | JArr "'n jsval list"
  | JObj "(string \<times> 'n jsval) list"

text \<open>The condition of an \<open>if\<close> and the left operand of \<open>&&\<close>: \<open>ToBoolean\<close>.\<close>

fun truthy :: "'n::zero jsval \<Rightarrow> bool" where
  "truthy JUndefined = False"
| "truthy JNull = False"
| "truthy (JBool b) = b"
| "truthy (JNum n) = (n \<noteq> 0)"
| "truthy (JStr s) = (s \<noteq> [])"
| "truthy (JArr xs) = True"
| "truthy (JObj kvs) = True"

text \<open>
  \<open>v.k\<close> on a value that is neither \<open>null\<close> nor \<open>undefined\<close>, for the property
  names the class reads from an event (\<open>choices\<close>, \<open>text\<close>, \<open>delta\<close>, \<open>content\<close>,
  \<open>finish_reason\<close>): none of them is a built-in property of an array, a string, a
  number or a boolean, so only an object can have one.
\<close>

fun getprop :: "string \<Rightarrow> 'n jsval \<Rightarrow> 'n jsval" where
  "getprop k (JObj kvs) = (case map_of kvs k of None \<Rightarrow> JUndefined | Some v \<Rightarrow> v)"
| "getprop k v = JUndefined"

text \<open>
  \<open>v[0]\<close> on a value that is neither \<open>null\<close> nor \<open>undefined\<close>: the first element
  of an array, the first character of a string, the property \<open>"0"\<close> of an object.
\<close>

fun elem0 :: "'n jsval \<Rightarrow> 'n jsval" where
  "elem0 (JArr xs) = (case xs of [] \<Rightarrow> JUndefined | x # _ \<Rightarrow> x)"
| "elem0 (JStr s) = (case s of [] \<Rightarrow> JUndefined | c # _ \<Rightarrow> JStr [c])"
| "elem0 (JObj kvs) = (case map_of kvs ''0'' of None \<Rightarrow> JUndefined | Some v \<Rightarrow> v)"
| "elem0 v = JUndefined"

text \<open>
  Optional chaining \<open>v?.p\<close> is \<open>undefined\<close> when \<open>v\<close> is \<open>null\<close> or
  \<open>undefined\<close>; the plain access \<open>v.p\<close> throws a \<open>TypeError\<close> there. The plain
  access takes the result of the access before it, so that a chain \<open>a.b[0].c\<close>
  stops at its first exception.
\<close>

definition opt :: "('n jsval \<Rightarrow> 'n jsval) \<Rightarrow> 'n jsval \<Rightarrow> 'n jsval" where
  "opt p v = (case v of JUndefined \<Rightarrow> JUndefined | JNull \<Rightarrow> JUndefined | _ \<Rightarrow> p v)"

definition plain :: "('n jsval \<Rightarrow> 'n jsval) \<Rightarrow> error + 'n jsval \<Rightarrow> error + 'n jsval" where
  "plain p r =
     (case r of
        Inl e \<Rightarrow> Inl e
      | Inr v \<Rightarrow>
          (case v of
             JUndefined \<Rightarrow> Inl (TypeError ''Cannot read properties of undefined'')
           | JNull \<Rightarrow> Inl (TypeError ''Cannot read properties of null'')
           | _ \<Rightarrow> Inr (p v)))"

text \<open>\<open>v !== "s"\<close> for a string literal \<open>s\<close>.\<close>

definition strict_neq_str :: "'n jsval \<Rightarrow> string \<Rightarrow> bool" where
  "strict_neq_str v s = (case v of JStr t \<Rightarrow> t \<noteq> s | _ \<Rightarrow> True)"

text \<open>
  \<open>ToString\<close>, as \<open>completion += v\<close> applies it to its right operand. An array is
  its elements joined by commas, \<open>null\<close> and \<open>undefined\<close> elements as empty strings.
\<close>

fun to_string :: "('n \<Rightarrow> string) \<Rightarrow> 'n jsval \<Rightarrow> string" where
  "to_string sh JUndefined = ''undefined''"
| "to_string sh JNull = ''null''"
| "to_string sh (JBool b) = (if b then ''true'' else ''false'')"
| "to_string sh (JNum n) = sh n"
| "to_string sh (JStr s) = s"
| "to_string sh (JArr xs) =
     join '','' (map (\<lambda>x. case x of JUndefined \<Rightarrow> [] | JNull \<Rightarrow> [] | _ \<Rightarrow> to_string sh x) xs)"
| "to_string sh (JObj kvs) = ''[object Object]''"

subsection \<open>Messages\<close>

text \<open>
  \<open>ChatMessage\<close> and \<open>MessagePart\<close> are declared outside this file; the fields are the
  ones the class reads and writes (\<open>part_type\<close> and \<open>part_text\<close> stand for the
  properties \<open>type\<close> and \<open>text\<close>). A part as the caller passes it has \<open>type\<close>,
  \<open>text\<close> and \<open>imageUrl\<close>; a part as \<open>_convertMessage\<close> builds it has \<open>type\<close>,
  \<open>text\<close> and \<open>image_url\<close>. A field that is absent or \<open>undefined\<close> is \<open>None\<close>.
  The object under \<open>imageUrl\<close> is the list of its properties.
\<close>

record part =
  part_type :: string
  part_text :: "string option"
  imageUrl :: "(string \<times> string) list option"
  image_url :: "(string \<times> string) list option"

datatype content = CStr string | CParts "part list"

record message =
  role :: string
  content :: content

text \<open>
  The object literal \<open>{ ...o, detail: "low" }\<close>: the properties of \<open>o\<close> (none when
  \<open>o\<close> is \<open>undefined\<close>), with \<open>detail\<close> set, in place when \<open>o\<close> has it already.
\<close>

definition spread_detail :: "(string \<times> string) list option \<Rightarrow> (string \<times> string) list" where
  "spread_detail obj = AList.update ''detail'' ''low'' (case obj of None \<Rightarrow> [] | Some kvs \<Rightarrow> kvs)"

definition convertPart :: "part \<Rightarrow> part" where
  "convertPart p =
     \<lparr> part_type = part_type p, part_text = part_text p, imageUrl = None,
       image_url = Some (spread_detail (imageUrl p)) \<rparr>"

definition convertMessage :: "message \<Rightarrow> message" where
  "convertMessage m =
     (case content m of
        CStr s \<Rightarrow> m
      | CParts ps \<Rightarrow> m\<lparr> content := CParts (map convertPart ps) \<rparr>)"

subsection \<open>Configuration, options, payload and request\<close>

text \<open>The fields of \<open>this\<close>. \<open>None\<close> is \<open>undefined\<close>.\<close>

record llm =
  apiBase :: "string option"
  apiType :: "string option"
  apiKey :: "string option"
  engine :: "string option"
  apiVersion :: "string option"
  useLegacyCompletionsEndpoint :: bool

record 'n options =
  model :: string
  maxTokens :: "'n option"
  temperature :: "'n option"
  topP :: "'n option"
  frequencyPenalty :: "'n option"
  presencePenalty :: "'n option"
  stop :: "string list option"

text \<open>
  The object \<open>_convertArgs\<close> builds, with the two properties its callers add
  (\<open>prompt\<close>, \<open>stream\<close>); \<open>delete args.messages\<close> makes \<open>messages\<close> \<open>None\<close>.
\<close>

record 'n payload =
  messages :: "message list option"
  model :: string
  max_tokens :: "'n option"
  temperature :: "'n option"
  top_p :: "'n option"
  frequency_penalty :: "'n option"
  presence_penalty :: "'n option"
  stop :: "string list option"
  prompt :: "string option"
  stream :: "bool option"

text \<open>
  The two arguments of \<open>this.fetch\<close> (\<open>http_method\<close> is the property
  \<open>method\<close>). The body is the payload that \<open>JSON.stringify\<close> serialises.
\<close>

record 'n request =
  url :: string
  http_method :: string
  headers :: "(string \<times> string) list"
  body :: "'n payload"

record 'n externals =
  new_URL :: "string \<Rightarrow> string option \<Rightarrow> string option"
  fetch_sse :: "'n request \<Rightarrow> (string \<times> 'n jsval) list list"
  number_to_string :: "'n \<Rightarrow> string"
  joiner :: string

text \<open>
  \<open>new_URL rel base\<close> is the \<open>href\<close> of the platform's \<open>new URL(rel, base)\<close>,
  \<open>None\<close> when the constructor throws. \<open>fetch_sse req\<close> is the list of the events
  that \<open>streamSse(await this.fetch(...))\<close> delivers for the request; \<open>streamSse\<close> is
  imported from \<open>../stream\<close>, and by its interface in the spec the events are parsed
  JSON objects, so an event is the list of the properties of an object.
  \<open>number_to_string\<close> is \<open>ToString\<close> on numbers. \<open>joiner\<close> is what
  \<open>stripImages\<close> puts between the texts it keeps.
\<close>

definition URL :: "'n externals \<Rightarrow> string \<Rightarrow> string option \<Rightarrow> error + string" where
  "URL ext rel base =
     (case new_URL ext rel base of None \<Rightarrow> Inl (TypeError ''Invalid URL'') | Some u \<Rightarrow> Inr u)"

text \<open>A value of type \<open>string | undefined\<close> inside a template literal.\<close>

definition interp :: "string option \<Rightarrow> string" where
  "interp x = (case x of None \<Rightarrow> ''undefined'' | Some s \<Rightarrow> s)"

subsection \<open>The model lists\<close>

definition NON_CHAT_MODELS :: "string list" where
  "NON_CHAT_MODELS =
     [''text-davinci-002'', ''text-davinci-003'', ''code-davinci-002'', ''text-ada-001'',
      ''text-babbage-001'', ''text-curie-001'', ''davinci'', ''curie'', ''babbage'', ''ada'']"

definition CHAT_ONLY_MODELS :: "string list" where
  "CHAT_ONLY_MODELS =
     [''gpt-3.5-turbo'', ''gpt-3.5-turbo-0613'', ''gpt-3.5-turbo-16k'', ''gpt-4'',
      ''gpt-35-turbo-16k'', ''gpt-35-turbo-0613'', ''gpt-35-turbo'', ''gpt-4-32k'',
      ''gpt-4-turbo-preview'', ''gpt-4-vision'', ''gpt-4-0125-preview'',
      ''gpt-4-1106-preview'']"

subsection \<open>\<open>_convertArgs\<close>\<close>

definition convertArgs :: "llm \<Rightarrow> 'n options \<Rightarrow> message list \<Rightarrow> 'n payload" where
  "convertArgs this opts msgs =
     \<lparr> messages = Some (map convertMessage msgs),
       model = options.model opts,
       max_tokens = maxTokens opts,
       temperature = options.temperature opts,
       top_p = topP opts,
       frequency_penalty = frequencyPenalty opts,
       presence_penalty = presencePenalty opts,
       stop =
         (if (case apiBase this of None \<Rightarrow> False | Some b \<Rightarrow> str_includes b '':1337'')
          then (case options.stop opts of None \<Rightarrow> None | Some xs \<Rightarrow> Some (take 4 xs))
          else options.stop opts),
       prompt = None,
       stream = None \<rparr>"

subsection \<open>\<open>_getEndpoint\<close>\<close>

datatype endpoint = ChatCompletions | Completions | Models

fun endpoint_str :: "endpoint \<Rightarrow> string" where
  "endpoint_str ChatCompletions = ''chat/completions''"
| "endpoint_str Completions = ''completions''"
| "endpoint_str Models = ''models''"

definition no_base_message :: string where
  "no_base_message =
     ''No API base URL provided. Please set the '' @ [CHR 0x27] @ ''apiBase'' @ [CHR 0x27]
       @ '' option in config.json''"

definition getEndpoint :: "'n externals \<Rightarrow> llm \<Rightarrow> endpoint \<Rightarrow> error + string" where
  "getEndpoint ext this ep =
     (if apiType this = Some ''azure'' then
        URL ext
          (''openai/deployments/'' @ interp (engine this) @ ''/'' @ endpoint_str ep
             @ ''?api-version='' @ interp (apiVersion this))
          (apiBase this)
      else if (case apiBase this of None \<Rightarrow> True | Some b \<Rightarrow> b = []) then
        Inl (Error no_base_message)
      else URL ext (endpoint_str ep) (apiBase this))"

subsection \<open>\<open>stripImages\<close>\<close>

text \<open>
  Modelled from the spec: \<open>stripImages\<close> is imported from \<open>../countTokens\<close>, which
  is not among the sources. The spec has it strip any image parts from a content, a
  part being either a text part or an image part; a string content has no parts and
  is the result as it is. So the result for a list of parts is made of the texts of
  its text parts, in order. The spec does not say what stands between two texts: it
  is the parameter \<open>sep\<close>.
\<close>

definition stripImages :: "string \<Rightarrow> content \<Rightarrow> string" where
  "stripImages sep c =
     (case c of
        CStr s \<Rightarrow> s
      | CParts ps \<Rightarrow>
          join sep
            (map (\<lambda>p. case part_text p of None \<Rightarrow> [] | Some t \<Rightarrow> t)
               (filter (\<lambda>p. part_type p = ''text'') ps)))"

subsection \<open>Generators\<close>

text \<open>
  What a caller that drains an async generator observes: the requests the generator
  sent, the values it yielded, and the exception that ended it, if one did.
\<close>

record 'n run =
  sent :: "'n request list"
  yielded :: "'n jsval list"
  thrown :: "error option"

text \<open>
  \<open>for await (const value of events) { body }\<close>, the body yielding a list of values
  or throwing.
\<close>

fun for_await :: "('e \<Rightarrow> error + 'c list) \<Rightarrow> 'e list \<Rightarrow> 'c list \<times> error option" where
  "for_await step [] = ([], None)"
| "for_await step (v # vs) =
     (case step v of
        Inl e \<Rightarrow> ([], Some e)
      | Inr out \<Rightarrow> (case for_await step vs of (cs, r) \<Rightarrow> (out @ cs, r)))"

definition post_headers :: "llm \<Rightarrow> (string \<times> string) list" where
  "post_headers this =
     [(''Content-Type'', ''application/json''),
      (''Authorization'', ''Bearer '' @ interp (apiKey this)),
      (''api-key'', (case apiKey this of None \<Rightarrow> [] | Some k \<Rightarrow> k))]"

subsection \<open>\<open>_legacystreamComplete\<close>\<close>

text \<open>
  The expressions the two loops read from an event: \<open>value.choices?.[0]?.text\<close>,
  \<open>value.finish_reason\<close>, \<open>value.choices?.[0]?.delta\<close> and
  \<open>value.choices?.[0]?.delta?.content\<close>.
\<close>

definition choice_text :: "(string \<times> 'n jsval) list \<Rightarrow> 'n jsval" where
  "choice_text value = opt (getprop ''text'') (opt elem0 (getprop ''choices'' (JObj value)))"

definition finish_reason :: "(string \<times> 'n jsval) list \<Rightarrow> 'n jsval" where
  "finish_reason value = getprop ''finish_reason'' (JObj value)"

definition choice_delta :: "(string \<times> 'n jsval) list \<Rightarrow> 'n jsval" where
  "choice_delta value = opt (getprop ''delta'') (opt elem0 (getprop ''choices'' (JObj value)))"

definition delta_content :: "(string \<times> 'n jsval) list \<Rightarrow> 'n jsval" where
  "delta_content value = opt (getprop ''content'') (choice_delta value)"

text \<open>
  The body of the loop over the events (lines 151 to 153). The yielded expression
  \<open>value.choices[0].text\<close> reads the event again, with plain accesses.
\<close>

definition legacy_event :: "(string \<times> 'n::zero jsval) list \<Rightarrow> error + 'n jsval list" where
  "legacy_event value =
     (if truthy (choice_text value) \<and> strict_neq_str (finish_reason value) ''eos''
      then
        (case plain (getprop ''text'') (plain elem0 (plain (getprop ''choices'') (Inr (JObj value)))) of
           Inl e \<Rightarrow> Inl e
         | Inr t \<Rightarrow> Inr [t])
      else Inr [])"

definition legacystreamComplete ::
  "'n::zero externals \<Rightarrow> llm \<Rightarrow> string \<Rightarrow> 'n options \<Rightarrow> 'n run" where
  "legacystreamComplete ext this p opts =
     (let args = (convertArgs this opts [])\<lparr> prompt := Some p, messages := None \<rparr> in
      case getEndpoint ext this Completions of
        Inl e \<Rightarrow> \<lparr> sent = [], yielded = [], thrown = Some e \<rparr>
      | Inr u \<Rightarrow>
          (let req = \<lparr> url = u, http_method = ''POST'', headers = post_headers this,
                       body = args\<lparr> stream := Some True \<rparr> \<rparr>
           in case for_await legacy_event (fetch_sse ext req) of
                (cs, r) \<Rightarrow> \<lparr> sent = [req], yielded = cs, thrown = r \<rparr>))"

subsection \<open>\<open>_streamChat\<close>\<close>

text \<open>\<open>messages[messages.length - 1]?.content || ""\<close>.\<close>

definition last_content :: "message list \<Rightarrow> content" where
  "last_content msgs =
     (if msgs = [] then CStr []
      else if content (last msgs) = CStr [] then CStr []
      else content (last msgs))"

text \<open>The branch that returns early (lines 166 to 175).\<close>

definition legacy_branch ::
  "'n::zero externals \<Rightarrow> llm \<Rightarrow> message list \<Rightarrow> 'n options \<Rightarrow> 'n run" where
  "legacy_branch ext this msgs opts =
     (let r = legacystreamComplete ext this (stripImages (joiner ext) (last_content msgs)) opts
      in r\<lparr> yielded :=
              map (\<lambda>c. JObj [(''role'', JStr ''assistant''), (''content'', c)]) (yielded r) \<rparr>)"

text \<open>The callback of \<open>body.messages.map\<close> (lines 183 to 186).\<close>

definition fixEmpty :: "message \<Rightarrow> message" where
  "fixEmpty m = m\<lparr> content := (if content m = CStr [] then CStr '' '' else content m) \<rparr>"

text \<open>
  The body of the loop over the events (lines 198 to 200). The yielded expression
  \<open>value.choices[0].delta\<close> reads the event again, with plain accesses.
\<close>

definition chat_event :: "(string \<times> 'n::zero jsval) list \<Rightarrow> error + 'n jsval list" where
  "chat_event value =
     (if truthy (delta_content value)
      then
        (case plain (getprop ''delta'') (plain elem0 (plain (getprop ''choices'') (Inr (JObj value)))) of
           Inl e \<Rightarrow> Inl e
         | Inr d \<Rightarrow> Inr [d])
      else Inr [])"

text \<open>The rest of the method (lines 178 to 201).\<close>

definition chat_branch ::
  "'n::zero externals \<Rightarrow> llm \<Rightarrow> message list \<Rightarrow> 'n options \<Rightarrow> 'n run" where
  "chat_branch ext this msgs opts =
     (let body0 = (convertArgs this opts msgs)\<lparr> stream := Some True \<rparr>;
          body1 = body0\<lparr> messages :=
                    (case messages body0 of None \<Rightarrow> None | Some ms \<Rightarrow> Some (map fixEmpty ms)) \<rparr>
      in case getEndpoint ext this ChatCompletions of
           Inl e \<Rightarrow> \<lparr> sent = [], yielded = [], thrown = Some e \<rparr>
         | Inr u \<Rightarrow>
             (let req = \<lparr> url = u, http_method = ''POST'', headers = post_headers this,
                          body = body1 \<rparr>
              in case for_await chat_event (fetch_sse ext req) of
                   (cs, r) \<Rightarrow> \<lparr> sent = [req], yielded = cs, thrown = r \<rparr>))"

definition streamChat ::
  "'n::zero externals \<Rightarrow> llm \<Rightarrow> message list \<Rightarrow> 'n options \<Rightarrow> 'n run" where
  "streamChat ext this msgs opts =
     (if \<not> array_includes CHAT_ONLY_MODELS (options.model opts)
         \<and> (array_includes NON_CHAT_MODELS (options.model opts)
              \<or> useLegacyCompletionsEndpoint this)
      then legacy_branch ext this msgs opts
      else chat_branch ext this msgs opts)"

subsection \<open>\<open>_complete\<close>\<close>

text \<open>
  The loop \<open>completion += chunk.content\<close> over the chunks, then the exception of the
  generator if it ended with one.
\<close>

fun complete_loop :: "('n \<Rightarrow> string) \<Rightarrow> string \<Rightarrow> 'n jsval list \<Rightarrow> error + string" where
  "complete_loop sh completion [] = Inr completion"
| "complete_loop sh completion (chunk # rest) =
     (case plain (getprop ''content'') (Inr chunk) of
        Inl e \<Rightarrow> Inl e
      | Inr c \<Rightarrow> complete_loop sh (completion @ to_string sh c) rest)"

definition complete :: "'n::zero externals \<Rightarrow> llm \<Rightarrow> string \<Rightarrow> 'n options \<Rightarrow> error + string" where
  "complete ext this p opts =
     (let r = streamChat ext this [\<lparr> role = ''user'', content = CStr p \<rparr>] opts in
      case complete_loop (number_to_string ext) [] (yielded r) of
        Inl e \<Rightarrow> Inl e
      | Inr completion \<Rightarrow> (case thrown r of Some e \<Rightarrow> Inl e | None \<Rightarrow> Inr completion))"

subsection \<open>Message objects in a store\<close>

text \<open>
  Messages are objects, and \<open>_convertMessage\<close> returns the very object it was given
  when the content is a string. To see which objects the chat path writes to, the
  construction of \<open>body.messages\<close> (lines 47 to 63, 67 and 183 to 186) is given a
  second time over a store of message objects: an address is an index into the
  store, an object literal allocates a new object at the end of the store, and a
  message array is the list of the addresses of its elements, each of them an
  address of the store.
\<close>

type_synonym store = "message list"

definition alloc :: "store \<Rightarrow> message \<Rightarrow> nat \<times> store" where
  "alloc h m = (length h, h @ [m])"

definition convertMessage_at :: "store \<Rightarrow> nat \<Rightarrow> nat \<times> store" where
  "convertMessage_at h a =
     (case content (h ! a) of
        CStr s \<Rightarrow> (a, h)
      | CParts ps \<Rightarrow> alloc h ((h ! a)\<lparr> content := CParts (map convertPart ps) \<rparr>))"

definition fixEmpty_at :: "store \<Rightarrow> nat \<Rightarrow> nat \<times> store" where
  "fixEmpty_at h a =
     alloc h
       ((h ! a)\<lparr> content :=
                   (if content (h ! a) = CStr [] then CStr '' '' else content (h ! a)) \<rparr>)"

text \<open>\<open>Array.prototype.map\<close> with a callback that may allocate.\<close>

fun map_at :: "(store \<Rightarrow> nat \<Rightarrow> nat \<times> store) \<Rightarrow> store \<Rightarrow> nat list \<Rightarrow> nat list \<times> store" where
  "map_at f h [] = ([], h)"
| "map_at f h (a # as) =
     (case f h a of (b, h1) \<Rightarrow> (case map_at f h1 as of (bs, h2) \<Rightarrow> (b # bs, h2)))"

definition chat_messages_at :: "store \<Rightarrow> nat list \<Rightarrow> nat list \<times> store" where
  "chat_messages_at h as =
     (case map_at convertMessage_at h as of (bs, h1) \<Rightarrow> map_at fixEmpty_at h1 bs)"

subsection \<open>Test fixtures\<close>

text \<open>
  A resolver that appends the relative reference to the base, as \<open>new URL\<close> does for
  a base that ends in a slash, and externals whose transport answers every request
  with the same events.
\<close>

definition concat_URL :: "string \<Rightarrow> string option \<Rightarrow> string option" where
  "concat_URL rel base = (case base of None \<Rightarrow> None | Some b \<Rightarrow> Some (b @ rel))"



definition constant_events ::
  "(string \<times> int jsval) list list \<Rightarrow> int request \<Rightarrow> (string \<times> int jsval) list list" where
  "constant_events evs req = evs"

definition no_digits :: "int \<Rightarrow> string" where
  "no_digits n = ''#''"

definition test_externals :: "(string \<times> int jsval) list list \<Rightarrow> int externals" where
  "test_externals evs =
     \<lparr> new_URL = concat_URL, fetch_sse = constant_events evs,
       number_to_string = no_digits, joiner = [CHR 0x0A] \<rparr>"

definition test_llm :: "string option \<Rightarrow> string option \<Rightarrow> bool \<Rightarrow> llm" where
  "test_llm base ty legacy =
     \<lparr> apiBase = base, apiType = ty, apiKey = Some ''key'', engine = Some ''gpt4dep'',
       apiVersion = Some ''2023-05-15'', useLegacyCompletionsEndpoint = legacy \<rparr>"

definition test_options :: "string \<Rightarrow> string list option \<Rightarrow> int options" where
  "test_options m st =
     \<lparr> options.model = m, maxTokens = None, temperature = None, topP = None,
       frequencyPenalty = None, presencePenalty = None, stop = st \<rparr>"

section \<open>Properties\<close>

subsection \<open>Strings, accesses and loops\<close>

text \<open>\<open>str_includes s p\<close> holds exactly when \<open>p\<close> occurs in \<open>s\<close>.\<close>

lemma startsWith_iff: "startsWith s p \<longleftrightarrow> (\<exists>v. s = p @ v)"
  by (induction s p rule: startsWith.induct) auto

lemma str_includes_iff: "str_includes s p \<longleftrightarrow> (\<exists>u v. s = u @ p @ v)"
proof (induction s)
  case Nil
  then show ?case by simp
next
  case (Cons c cs)
  show ?case
  proof
    assume "str_includes (c # cs) p"
    then consider "startsWith (c # cs) p" | "str_includes cs p" by auto
    then show "\<exists>u v. c # cs = u @ p @ v"
    proof cases
      case 1
      then obtain v where "c # cs = p @ v" by (auto simp: startsWith_iff)
      then have "c # cs = [] @ p @ v" by simp
      then show ?thesis by blast
    next
      case 2
      then obtain u v where "cs = u @ p @ v" using Cons.IH by blast
      then have "c # cs = (c # u) @ p @ v" by simp
      then show ?thesis by blast
    qed
  next
    assume "\<exists>u v. c # cs = u @ p @ v"
    then obtain u v where uv: "c # cs = u @ p @ v" by blast
    show "str_includes (c # cs) p"
    proof (cases u)
      case Nil
      with uv have "startsWith (c # cs) p" by (auto simp: startsWith_iff)
      then show ?thesis by simp
    next
      case (Cons d u')
      with uv have "cs = u' @ p @ v" by simp
      then have "str_includes cs p" using Cons.IH by blast
      then show ?thesis by simp
    qed
  qed
qed

lemma opt_truthy_defined:
  "truthy (opt p v) \<Longrightarrow> v \<noteq> JUndefined \<and> v \<noteq> JNull"
  by (cases v) (simp_all add: opt_def)

lemma opt_defined: "v \<noteq> JUndefined \<Longrightarrow> v \<noteq> JNull \<Longrightarrow> opt p v = p v"
  by (cases v) (simp_all add: opt_def)

lemma plain_defined: "v \<noteq> JUndefined \<Longrightarrow> v \<noteq> JNull \<Longrightarrow> plain p (Inr v) = Inr (p v)"
  by (cases v) (simp_all add: plain_def)

lemma plain_obj: "plain p (Inr (JObj kvs)) = Inr (p (JObj kvs))"
  by (simp add: plain_def)

lemma strict_neq_str_iff: "strict_neq_str v s \<longleftrightarrow> v \<noteq> JStr s"
  by (cases v) (simp_all add: strict_neq_str_def)

lemma for_await_total:
  "(\<And>v. v \<in> set vs \<Longrightarrow> step v = Inr (f v)) \<Longrightarrow> for_await step vs = (concat (map f vs), None)"
  by (induction vs) simp_all

lemmas fixture_defs =
  test_externals_def test_llm_def test_options_def concat_URL_def constant_events_def
  no_digits_def

lemmas run_defs =
  streamChat_def legacy_branch_def chat_branch_def legacystreamComplete_def getEndpoint_def
  URL_def array_includes_def CHAT_ONLY_MODELS_def NON_CHAT_MODELS_def convertArgs_def
  post_headers_def interp_def

subsection \<open>The two loops over the events\<close>

text \<open>
  When the guard of a loop body holds, the plain accesses of the yielded expression
  read what the optional chain of the guard read, and none of them throws.
\<close>

lemma choice_text_plain:
  assumes "truthy (choice_text value)"
  shows "plain (getprop ''text'') (plain elem0 (plain (getprop ''choices'') (Inr (JObj value))))
           = Inr (choice_text value)"
proof -
  let ?cs = "getprop ''choices'' (JObj value)"
  from assms have c: "opt elem0 ?cs \<noteq> JUndefined \<and> opt elem0 ?cs \<noteq> JNull"
    unfolding choice_text_def by (rule opt_truthy_defined)
  then have cs: "?cs \<noteq> JUndefined \<and> ?cs \<noteq> JNull"
    by (auto simp: opt_def)
  then have e: "opt elem0 ?cs = elem0 ?cs" by (simp add: opt_defined)
  have "plain elem0 (plain (getprop ''choices'') (Inr (JObj value))) = Inr (elem0 ?cs)"
    using cs by (simp add: plain_obj plain_defined)
  moreover have "plain (getprop ''text'') (Inr (elem0 ?cs)) = Inr (getprop ''text'' (elem0 ?cs))"
    using c e by (simp add: plain_defined)
  ultimately show ?thesis
    using c e by (simp add: choice_text_def opt_defined)
qed

lemma choice_delta_plain:
  assumes "truthy (delta_content value)"
  shows "plain (getprop ''delta'') (plain elem0 (plain (getprop ''choices'') (Inr (JObj value))))
           = Inr (choice_delta value)"
proof -
  let ?cs = "getprop ''choices'' (JObj value)"
  from assms have d: "choice_delta value \<noteq> JUndefined \<and> choice_delta value \<noteq> JNull"
    unfolding delta_content_def by (rule opt_truthy_defined)
  then have c: "opt elem0 ?cs \<noteq> JUndefined \<and> opt elem0 ?cs \<noteq> JNull"
    by (auto simp: choice_delta_def opt_def)
  then have cs: "?cs \<noteq> JUndefined \<and> ?cs \<noteq> JNull"
    by (auto simp: opt_def)
  then have e: "opt elem0 ?cs = elem0 ?cs" by (simp add: opt_defined)
  have "plain elem0 (plain (getprop ''choices'') (Inr (JObj value))) = Inr (elem0 ?cs)"
    using cs by (simp add: plain_obj plain_defined)
  moreover have "plain (getprop ''delta'') (Inr (elem0 ?cs)) = Inr (getprop ''delta'' (elem0 ?cs))"
    using c e by (simp add: plain_defined)
  ultimately show ?thesis
    using c e by (simp add: choice_delta_def opt_defined)
qed

lemma legacy_event_eq:
  "legacy_event value =
     Inr (if truthy (choice_text value) \<and> finish_reason value \<noteq> JStr ''eos''
          then [choice_text value] else [])"
  by (simp add: legacy_event_def choice_text_plain strict_neq_str_iff)

lemma chat_event_eq:
  "chat_event value = Inr (if truthy (delta_content value) then [choice_delta value] else [])"
  by (simp add: chat_event_def choice_delta_plain)

lemma truthy_delta_content_iff:
  "truthy (delta_content value) \<longleftrightarrow>
     (\<exists>kvs c. choice_delta value = JObj kvs \<and> map_of kvs ''content'' = Some c \<and> truthy c)"
  by (cases "choice_delta value") (auto simp: delta_content_def opt_def split: option.splits)

text \<open>With the endpoint resolved, a streamer sends one request and ends without an exception.\<close>

lemma legacystreamComplete_run:
  assumes "getEndpoint ext this Completions = Inr u"
  shows "legacystreamComplete ext this p opts =
    \<lparr> sent = [\<lparr> url = u, http_method = ''POST'', headers = post_headers this,
                 body = (convertArgs this opts [])\<lparr> prompt := Some p, messages := None,
                                                   stream := Some True \<rparr> \<rparr>],
      yielded =
        concat (map (\<lambda>v. if truthy (choice_text v) \<and> finish_reason v \<noteq> JStr ''eos''
                          then [choice_text v] else [])
                  (fetch_sse ext
                     \<lparr> url = u, http_method = ''POST'', headers = post_headers this,
                       body = (convertArgs this opts [])\<lparr> prompt := Some p, messages := None,
                                                         stream := Some True \<rparr> \<rparr>)),
      thrown = None \<rparr>"
  using assms
  by (simp add: legacystreamComplete_def Let_def for_await_total [where step = legacy_event, OF legacy_event_eq])

lemma chat_branch_run:
  assumes "getEndpoint ext this ChatCompletions = Inr u"
  shows "chat_branch ext this msgs opts =
    \<lparr> sent = [\<lparr> url = u, http_method = ''POST'', headers = post_headers this,
                 body = (convertArgs this opts msgs)
                          \<lparr> stream := Some True,
                            messages := Some (map fixEmpty (map convertMessage msgs)) \<rparr> \<rparr>],
      yielded =
        concat (map (\<lambda>v. if truthy (delta_content v) then [choice_delta v] else [])
                  (fetch_sse ext
                     \<lparr> url = u, http_method = ''POST'', headers = post_headers this,
                       body = (convertArgs this opts msgs)
                                \<lparr> stream := Some True,
                                  messages := Some (map fixEmpty (map convertMessage msgs)) \<rparr> \<rparr>)),
      thrown = None \<rparr>"
  using assms
  by (simp add: chat_branch_def Let_def for_await_total [where step = chat_event, OF chat_event_eq])
    (simp add: convertArgs_def)

subsection \<open>Routing\<close>

text \<open>No model is in both lists.\<close>

lemma model_lists_disjoint: "set CHAT_ONLY_MODELS \<inter> set NON_CHAT_MODELS = {}"
  by (simp add: CHAT_ONLY_MODELS_def NON_CHAT_MODELS_def)

text \<open>
  Claim C1. For every request the dispatcher routes by this priority: a model in
  \<open>CHAT_ONLY_MODELS\<close> takes the chat path whatever the legacy flag is; otherwise a
  model in \<open>NON_CHAT_MODELS\<close>, or any model when \<open>useLegacyCompletionsEndpoint\<close> is
  set, takes the legacy completion path; otherwise the request takes the chat path.
\<close>

theorem streamChat_routing:
  "streamChat ext this msgs opts =
     (if options.model opts \<in> set CHAT_ONLY_MODELS then chat_branch ext this msgs opts
      else if options.model opts \<in> set NON_CHAT_MODELS \<or> useLegacyCompletionsEndpoint this
        then legacy_branch ext this msgs opts
      else chat_branch ext this msgs opts)"
  by (simp add: streamChat_def array_includes_def)

theorem streamChat_routing_witness:
  "map url (sent (streamChat (test_externals []) (test_llm (Some ''https://x/'') None True) []
      (test_options ''gpt-4'' None))) = [''https://x/chat/completions'']
   \<and> map url (sent (streamChat (test_externals []) (test_llm (Some ''https://x/'') None False) []
      (test_options ''davinci'' None))) = [''https://x/completions'']
   \<and> map url (sent (streamChat (test_externals []) (test_llm (Some ''https://x/'') None True) []
      (test_options ''my-model'' None))) = [''https://x/completions'']
   \<and> map url (sent (streamChat (test_externals []) (test_llm (Some ''https://x/'') None False) []
      (test_options ''my-model'' None))) = [''https://x/chat/completions'']"
proof -
  let ?ext = "test_externals []"
  let ?on = "test_llm (Some ''https://x/'') None True"
  let ?off = "test_llm (Some ''https://x/'') None False"
  have chat: "getEndpoint ?ext llm ChatCompletions = Inr ''https://x/chat/completions''"
    and legacy: "getEndpoint ?ext llm Completions = Inr ''https://x/completions''"
    if "llm = ?on \<or> llm = ?off" for llm
    using that by (auto simp: fixture_defs getEndpoint_def URL_def)
  have 1: "streamChat ?ext ?on [] (test_options ''gpt-4'' None)
             = chat_branch ?ext ?on [] (test_options ''gpt-4'' None)"
    using streamChat_routing [of ?ext ?on "[]" "test_options ''gpt-4'' None"]
    by (simp add: test_options_def CHAT_ONLY_MODELS_def)
  have 2: "streamChat ?ext ?off [] (test_options ''davinci'' None)
             = legacy_branch ?ext ?off [] (test_options ''davinci'' None)"
    using streamChat_routing [of ?ext ?off "[]" "test_options ''davinci'' None"]
    by (simp add: test_options_def CHAT_ONLY_MODELS_def NON_CHAT_MODELS_def)
  have 3: "streamChat ?ext ?on [] (test_options ''my-model'' None)
             = legacy_branch ?ext ?on [] (test_options ''my-model'' None)"
    using streamChat_routing [of ?ext ?on "[]" "test_options ''my-model'' None"]
    by (simp add: test_options_def test_llm_def CHAT_ONLY_MODELS_def NON_CHAT_MODELS_def)
  have 4: "streamChat ?ext ?off [] (test_options ''my-model'' None)
             = chat_branch ?ext ?off [] (test_options ''my-model'' None)"
    using streamChat_routing [of ?ext ?off "[]" "test_options ''my-model'' None"]
    by (simp add: test_options_def test_llm_def CHAT_ONLY_MODELS_def NON_CHAT_MODELS_def)
  show ?thesis
    unfolding 1 2 3 4
    by (simp add: chat_branch_run [OF chat] legacy_branch_def Let_def
        legacystreamComplete_run [OF legacy])
qed

subsection \<open>The legacy streamer\<close>

text \<open>
  Claim C2, as amended. With the endpoint resolved, the legacy streamer sends one
  request and, for every parsed event of the response, in order, yields the
  first-choice text exactly when that text is truthy (present and not empty) and
  the \<open>finish_reason\<close> property of the event itself is not the string \<open>eos\<close>;
  it yields nothing for any other event and ends without an exception. A
  \<open>finish_reason\<close> inside the choice is not read: of the events
  \<open>{choices:[{text:"x"}], finish_reason:"eos"}\<close>,
  \<open>{choices:[{text:"x", finish_reason:"eos"}]}\<close>, \<open>{choices:[]}\<close> and
  \<open>{choices:[{text:"y", finish_reason:null}]}\<close> the second yields \<open>"x"\<close> and the
  fourth \<open>"y"\<close>.
\<close>

theorem legacystreamComplete_emits:
  "(getEndpoint ext this Completions = Inr u \<longrightarrow>
      (\<exists>req. sent (legacystreamComplete ext this p opts) = [req]
         \<and> yielded (legacystreamComplete ext this p opts) =
             concat (map (\<lambda>ev.
                       if truthy (choice_text ev) \<and> finish_reason ev \<noteq> JStr ''eos''
                       then [choice_text ev] else [])
                     (fetch_sse ext req))
         \<and> thrown (legacystreamComplete ext this p opts) = None))
   \<and> legacy_event ev =
       Inr (if truthy (choice_text ev) \<and> finish_reason ev \<noteq> JStr ''eos''
            then [choice_text ev] else [])"
proof -
  have "\<exists>req. sent (legacystreamComplete ext this p opts) = [req]
         \<and> yielded (legacystreamComplete ext this p opts) =
             concat (map (\<lambda>ev.
                       if truthy (choice_text ev) \<and> finish_reason ev \<noteq> JStr ''eos''
                       then [choice_text ev] else [])
                     (fetch_sse ext req))
         \<and> thrown (legacystreamComplete ext this p opts) = None"
    if "getEndpoint ext this Completions = Inr u"
    unfolding legacystreamComplete_run [OF that] by simp
  then show ?thesis by (simp add: legacy_event_eq)
qed

theorem legacystreamComplete_emits_witness:
  "getEndpoint (test_externals []) (test_llm (Some ''https://x/'') None False) Completions
     = Inr ''https://x/completions''
   \<and> yielded (legacystreamComplete
        (test_externals
           [[(''choices'', JArr [JObj [(''text'', JStr ''x'')]]), (''finish_reason'', JStr ''eos'')],
            [(''choices'', JArr [JObj [(''text'', JStr ''x''), (''finish_reason'', JStr ''eos'')]])],
            [(''choices'', JArr [])],
            [(''choices'', JArr [JObj [(''text'', JStr ''y''), (''finish_reason'', JNull)]])]])
        (test_llm (Some ''https://x/'') None False) ''p'' (test_options ''davinci'' None))
     = [JStr ''x'', JStr ''y'']
   \<and> thrown (legacystreamComplete
        (test_externals
           [[(''choices'', JArr [JObj [(''text'', JStr ''x'')]]), (''finish_reason'', JStr ''eos'')],
            [(''choices'', JArr [JObj [(''text'', JStr ''x''), (''finish_reason'', JStr ''eos'')]])],
            [(''choices'', JArr [])],
            [(''choices'', JArr [JObj [(''text'', JStr ''y''), (''finish_reason'', JNull)]])]])
        (test_llm (Some ''https://x/'') None False) ''p'' (test_options ''davinci'' None))
     = None"
proof -
  let ?evs = "[[(''choices'', JArr [JObj [(''text'', JStr ''x'')]]), (''finish_reason'', JStr ''eos'')],
            [(''choices'', JArr [JObj [(''text'', JStr ''x''), (''finish_reason'', JStr ''eos'')]])],
            [(''choices'', JArr [])],
            [(''choices'', JArr [JObj [(''text'', JStr ''y''), (''finish_reason'', JNull)]])]]
            :: (string \<times> int jsval) list list"
  let ?llm = "test_llm (Some ''https://x/'') None False"
  let ?opts = "test_options ''davinci'' None"
  have ep0: "getEndpoint (test_externals []) ?llm Completions = Inr ''https://x/completions''"
    by (simp add: fixture_defs getEndpoint_def URL_def)
  have ep: "getEndpoint (test_externals ?evs) ?llm Completions = Inr ''https://x/completions''"
    by (simp add: fixture_defs getEndpoint_def URL_def)
  from legacystreamComplete_emits
      [where ext = "test_externals ?evs" and this = ?llm and u = "''https://x/completions''"
         and p = "''p''" and opts = ?opts,
       THEN conjunct1, rule_format, OF ep]
  obtain req where
    y: "yielded (legacystreamComplete (test_externals ?evs) ?llm ''p'' ?opts) =
          concat (map (\<lambda>ev.
                       if truthy (choice_text ev) \<and> finish_reason ev \<noteq> JStr ''eos''
                       then [choice_text ev] else [])
                     (fetch_sse (test_externals ?evs) req))"
    and t: "thrown (legacystreamComplete (test_externals ?evs) ?llm ''p'' ?opts) = None"
    by blast
  have "fetch_sse (test_externals ?evs) req = ?evs"
    by (simp add: test_externals_def constant_events_def)
  with y have "yielded (legacystreamComplete (test_externals ?evs) ?llm ''p'' ?opts)
      = [JStr ''x'', JStr ''y'']"
    by (simp add: choice_text_def finish_reason_def opt_def)
  with ep0 t show ?thesis by simp
qed

text \<open>
  Claim C2 as stated has the event \<open>{choices:[{text:"x", finish_reason:"eos"}]}\<close> yield
  no chunk. The legacy streamer yields \<open>"x"\<close> for a response made of that event.
\<close>

theorem legacy_eos_in_choice_counterexample:
  "yielded (legacystreamComplete
     (test_externals
        [[(''choices'', JArr [JObj [(''text'', JStr ''x''), (''finish_reason'', JStr ''eos'')]])]])
     (test_llm (Some ''https://x/'') None False) ''p'' (test_options ''davinci'' None))
   = [JStr ''x'']"
  by (simp add: fixture_defs run_defs Let_def legacy_event_def choice_text_def finish_reason_def
      opt_def plain_def strict_neq_str_def)

subsection \<open>The chat streamer\<close>

text \<open>
  Claim C8. On the chat path, with the endpoint resolved, the dispatcher sends one
  request and, for every parsed event of the response, in order, yields the
  first-choice delta exactly when that delta exists and its content is not empty
  (truthy: the delta is an object whose \<open>content\<close> property is truthy, for a string
  content a non-empty string); every other event (no \<open>choices\<close>, no delta, an empty
  content) is skipped, and the stream ends without an exception.
\<close>

theorem chat_path_emits:
  assumes "options.model opts \<in> set CHAT_ONLY_MODELS
           \<or> (options.model opts \<notin> set NON_CHAT_MODELS \<and> \<not> useLegacyCompletionsEndpoint this)"
  shows "(getEndpoint ext this ChatCompletions = Inr u \<longrightarrow>
            (\<exists>req. sent (streamChat ext this msgs opts) = [req]
               \<and> yielded (streamChat ext this msgs opts) =
                   concat (map (\<lambda>ev. if truthy (delta_content ev) then [choice_delta ev] else [])
                           (fetch_sse ext req))
               \<and> thrown (streamChat ext this msgs opts) = None))
       \<and> chat_event ev = Inr (if truthy (delta_content ev) then [choice_delta ev] else [])
       \<and> (truthy (delta_content ev) \<longleftrightarrow>
            (\<exists>kvs c. choice_delta ev = JObj kvs \<and> map_of kvs ''content'' = Some c \<and> truthy c))
       \<and> (getprop ''choices'' (JObj ev) = JUndefined \<longrightarrow> \<not> truthy (delta_content ev))
       \<and> (choice_delta ev = JUndefined \<longrightarrow> \<not> truthy (delta_content ev))
       \<and> (delta_content ev = JStr s \<longrightarrow> (truthy (delta_content ev) \<longleftrightarrow> s \<noteq> []))"
proof -
  from assms have chat: "streamChat ext this msgs opts = chat_branch ext this msgs opts"
    by (auto simp: streamChat_def array_includes_def)
  have run: "\<exists>req. sent (streamChat ext this msgs opts) = [req]
               \<and> yielded (streamChat ext this msgs opts) =
                   concat (map (\<lambda>ev. if truthy (delta_content ev) then [choice_delta ev] else [])
                           (fetch_sse ext req))
               \<and> thrown (streamChat ext this msgs opts) = None"
    if "getEndpoint ext this ChatCompletions = Inr u"
    unfolding chat chat_branch_run [OF that] by simp
  have no_choices: "\<not> truthy (delta_content ev)"
    if "getprop ''choices'' (JObj ev) = JUndefined"
    using that by (simp add: delta_content_def choice_delta_def opt_def)
  have no_delta: "\<not> truthy (delta_content ev)" if "choice_delta ev = JUndefined"
    using that by (simp add: delta_content_def opt_def)
  have str: "truthy (delta_content ev) \<longleftrightarrow> s \<noteq> []" if "delta_content ev = JStr s"
    using that by simp
  from run chat_event_eq [of ev] truthy_delta_content_iff [of ev] no_choices no_delta str
  show ?thesis by blast
qed

theorem chat_path_emits_witness:
  "options.model (test_options ''gpt-4'' None) \<in> set CHAT_ONLY_MODELS
   \<and> getEndpoint (test_externals []) (test_llm (Some ''https://x/'') None False) ChatCompletions
       = Inr ''https://x/chat/completions''
   \<and> yielded (streamChat
        (test_externals
           [[],
            [(''choices'', JArr [JObj []])],
            [(''choices'', JArr [JObj [(''delta'', JObj [(''content'', JStr [])])]])],
            [(''choices'', JArr [JObj [(''delta'', JObj [(''content'', JStr ''hi'')])]])]])
        (test_llm (Some ''https://x/'') None False) [] (test_options ''gpt-4'' None))
     = [JObj [(''content'', JStr ''hi'')]]
   \<and> thrown (streamChat
        (test_externals
           [[],
            [(''choices'', JArr [JObj []])],
            [(''choices'', JArr [JObj [(''delta'', JObj [(''content'', JStr [])])]])],
            [(''choices'', JArr [JObj [(''delta'', JObj [(''content'', JStr ''hi'')])]])]])
        (test_llm (Some ''https://x/'') None False) [] (test_options ''gpt-4'' None))
     = None
   \<and> getprop ''choices'' (JObj []) = (JUndefined :: int jsval)
   \<and> \<not> truthy (delta_content ([] :: (string \<times> int jsval) list))
   \<and> choice_delta [(''choices'', JArr [JObj []])] = (JUndefined :: int jsval)
   \<and> \<not> truthy (delta_content [(''choices'', JArr [JObj []]) :: string \<times> int jsval])
   \<and> delta_content [(''choices'', JArr [JObj [(''delta'', JObj [(''content'', JStr ''hi'')])]])]
       = (JStr ''hi'' :: int jsval)
   \<and> truthy (delta_content
        [(''choices'', JArr [JObj [(''delta'', JObj [(''content'', JStr ''hi'')])]])
           :: string \<times> int jsval])"
proof -
  let ?evs = "[[],
            [(''choices'', JArr [JObj []])],
            [(''choices'', JArr [JObj [(''delta'', JObj [(''content'', JStr [])])]])],
            [(''choices'', JArr [JObj [(''delta'', JObj [(''content'', JStr ''hi'')])]])]]
            :: (string \<times> int jsval) list list"
  let ?llm = "test_llm (Some ''https://x/'') None False"
  let ?opts = "test_options ''gpt-4'' None"
  let ?hi = "[(''choices'', JArr [JObj [(''delta'', JObj [(''content'', JStr ''hi'')])]])]
               :: (string \<times> int jsval) list"
  let ?nd = "[(''choices'', JArr [JObj []])] :: (string \<times> int jsval) list"
  have model: "options.model ?opts \<in> set CHAT_ONLY_MODELS"
    by (simp add: test_options_def CHAT_ONLY_MODELS_def)
  then have route: "options.model ?opts \<in> set CHAT_ONLY_MODELS
           \<or> (options.model ?opts \<notin> set NON_CHAT_MODELS \<and> \<not> useLegacyCompletionsEndpoint ?llm)"
    by blast
  have ep0: "getEndpoint (test_externals []) ?llm ChatCompletions = Inr ''https://x/chat/completions''"
    by (simp add: fixture_defs getEndpoint_def URL_def)
  have ep: "getEndpoint (test_externals ?evs) ?llm ChatCompletions = Inr ''https://x/chat/completions''"
    by (simp add: fixture_defs getEndpoint_def URL_def)
  note T = chat_path_emits [OF route, where ext = "test_externals ?evs"
      and u = "''https://x/chat/completions''" and msgs = "[]"]
  from T [where ev = "[]" and s = "[]", THEN conjunct1, rule_format, OF ep]
  obtain req where
    y: "yielded (streamChat (test_externals ?evs) ?llm [] ?opts) =
          concat (map (\<lambda>ev. if truthy (delta_content ev) then [choice_delta ev] else [])
                    (fetch_sse (test_externals ?evs) req))"
    and t: "thrown (streamChat (test_externals ?evs) ?llm [] ?opts) = None"
    by blast
  have "fetch_sse (test_externals ?evs) req = ?evs"
    by (simp add: test_externals_def constant_events_def)
  with y have y': "yielded (streamChat (test_externals ?evs) ?llm [] ?opts)
      = [JObj [(''content'', JStr ''hi'')]]"
    by (simp add: delta_content_def choice_delta_def opt_def)
  have c0: "getprop ''choices'' (JObj []) = (JUndefined :: int jsval)" by simp
  from T [where ev = "[]" and s = "[]"] c0
  have s0: "\<not> truthy (delta_content ([] :: (string \<times> int jsval) list))" by blast
  have c1: "choice_delta ?nd = JUndefined" by (simp add: choice_delta_def opt_def)
  from T [where ev = ?nd and s = "[]"] c1
  have s1: "\<not> truthy (delta_content ?nd)" by blast
  have c2: "delta_content ?hi = JStr ''hi''"
    by (simp add: delta_content_def choice_delta_def opt_def)
  from T [where ev = ?hi and s = "''hi''"] c2
  have s2: "truthy (delta_content ?hi)" by simp
  from model ep0 y' t c0 s0 c1 s1 c2 s2 show ?thesis by blast
qed

subsection \<open>The chunks of the legacy path\<close>

text \<open>
  Claim C9. Every chunk the dispatcher yields on the legacy path is an object
  \<open>{role: "assistant", content}\<close> whose content is the corresponding text fragment
  of the legacy streamer, in the same order.
\<close>

theorem legacy_chunks_are_assistant_messages:
  assumes "options.model opts \<notin> set CHAT_ONLY_MODELS"
    and "options.model opts \<in> set NON_CHAT_MODELS \<or> useLegacyCompletionsEndpoint this"
  shows "yielded (streamChat ext this msgs opts) =
           map (\<lambda>t. JObj [(''role'', JStr ''assistant''), (''content'', t)])
             (yielded (legacystreamComplete ext this
                (stripImages (joiner ext) (last_content msgs)) opts))
         \<and> list_all (\<lambda>c. getprop ''role'' c = JStr ''assistant'')
             (yielded (streamChat ext this msgs opts))
         \<and> map (getprop ''content'') (yielded (streamChat ext this msgs opts)) =
             yielded (legacystreamComplete ext this
                (stripImages (joiner ext) (last_content msgs)) opts)"
  using assms
  by (simp add: streamChat_def array_includes_def legacy_branch_def Let_def list_all_iff comp_def)

theorem legacy_chunks_witness:
  "options.model (test_options ''davinci'' None) \<notin> set CHAT_ONLY_MODELS
   \<and> options.model (test_options ''davinci'' None) \<in> set NON_CHAT_MODELS
   \<and> yielded (streamChat
        (test_externals [[(''choices'', JArr [JObj [(''text'', JStr ''y''), (''finish_reason'', JNull)]])]])
        (test_llm (Some ''https://x/'') None False) [] (test_options ''davinci'' None))
      = [JObj [(''role'', JStr ''assistant''), (''content'', JStr ''y'')]]"
  using legacy_chunks_are_assistant_messages
    [where opts = "test_options ''davinci'' None"
       and this = "test_llm (Some ''https://x/'') None False"
       and ext = "test_externals [[(''choices'', JArr [JObj [(''text'', JStr ''y''), (''finish_reason'', JNull)]])]]"
       and msgs = "[]"]
  by (simp add: fixture_defs run_defs legacy_event_eq choice_text_def finish_reason_def opt_def)

subsection \<open>The stop list\<close>

lemma take4_of_6:
  "length xs = 6 \<Longrightarrow> take 4 xs = [xs ! 0, xs ! 1, xs ! 2, xs ! 3]"
  by (auto simp: eval_nat_numeral length_Suc_conv)

text \<open>
  Claim C3. For options with a stop list: when the API base contains \<open>:1337\<close>, the
  \<open>stop\<close> field of the payload is the first four entries of \<open>options.stop\<close> (a
  list of six becomes its first four entries); when the API base does not contain
  it, or there is no API base, the \<open>stop\<close> field is \<open>options.stop\<close> unchanged.
\<close>

theorem convertArgs_stop:
  assumes "options.stop opts = Some xs"
  shows "(apiBase this = Some (u @ '':1337'' @ v) \<longrightarrow>
            payload.stop (convertArgs this opts msgs) = Some (take 4 xs))
       \<and> (apiBase this = Some (u @ '':1337'' @ v) \<and> length xs = 6 \<longrightarrow>
            payload.stop (convertArgs this opts msgs) = Some [xs ! 0, xs ! 1, xs ! 2, xs ! 3])
       \<and> ((\<forall>b u v. apiBase this = Some b \<longrightarrow> b \<noteq> u @ '':1337'' @ v) \<longrightarrow>
            payload.stop (convertArgs this opts msgs) = Some xs)"
proof -
  have marked: "payload.stop (convertArgs this opts msgs) = Some (take 4 xs)"
    if "apiBase this = Some (u @ '':1337'' @ v)"
  proof -
    have "str_includes (u @ '':1337'' @ v) '':1337''"
      unfolding str_includes_iff by blast
    with that assms show ?thesis by (simp add: convertArgs_def)
  qed
  have unmarked: "payload.stop (convertArgs this opts msgs) = Some xs"
    if "\<forall>b u v. apiBase this = Some b \<longrightarrow> b \<noteq> u @ '':1337'' @ v"
  proof (cases "apiBase this")
    case None
    with assms show ?thesis by (simp add: convertArgs_def)
  next
    case (Some b)
    with that have "\<not> str_includes b '':1337''"
      unfolding str_includes_iff by blast
    with Some assms show ?thesis by (simp add: convertArgs_def)
  qed
  from marked unmarked show ?thesis
    by (simp add: take4_of_6)
qed

theorem convertArgs_stop_witness:
  "options.stop (test_options ''gpt-4'' (Some [''a'', ''b'', ''c'', ''d'', ''e'', ''f'']))
     = Some [''a'', ''b'', ''c'', ''d'', ''e'', ''f'']
   \<and> apiBase (test_llm (Some ''http://localhost:1337/v1/'') None False)
       = Some (''http://localhost'' @ '':1337'' @ ''/v1/'')
   \<and> length [''a'', ''b'', ''c'', ''d'', ''e'', ''f''] = 6
   \<and> payload.stop (convertArgs (test_llm (Some ''http://localhost:1337/v1/'') None False)
        (test_options ''gpt-4'' (Some [''a'', ''b'', ''c'', ''d'', ''e'', ''f''])) [])
       = Some [''a'', ''b'', ''c'', ''d'']
   \<and> \<not> str_includes ''https://api.openai.com/v1/'' '':1337''
   \<and> payload.stop (convertArgs (test_llm (Some ''https://api.openai.com/v1/'') None False)
        (test_options ''gpt-4'' (Some [''a'', ''b'', ''c'', ''d'', ''e'', ''f''])) [])
       = Some [''a'', ''b'', ''c'', ''d'', ''e'', ''f'']"
proof -
  let ?opts = "test_options ''gpt-4'' (Some [''a'', ''b'', ''c'', ''d'', ''e'', ''f''])"
  have st: "options.stop ?opts = Some [''a'', ''b'', ''c'', ''d'', ''e'', ''f'']"
    by (simp add: test_options_def)
  have n: "\<not> str_includes ''https://api.openai.com/v1/'' '':1337''"
    by simp
  then have free: "\<forall>b u v. apiBase (test_llm (Some ''https://api.openai.com/v1/'') None False) = Some b
                     \<longrightarrow> b \<noteq> u @ '':1337'' @ v"
    unfolding str_includes_iff by (simp add: test_llm_def)
  have base: "apiBase (test_llm (Some ''http://localhost:1337/v1/'') None False)
       = Some (''http://localhost'' @ '':1337'' @ ''/v1/'')"
    by (simp add: test_llm_def)
  from convertArgs_stop [OF st, of "test_llm (Some ''http://localhost:1337/v1/'') None False"
      "''http://localhost''" "''/v1/''" "[]"] base
  have a: "payload.stop (convertArgs (test_llm (Some ''http://localhost:1337/v1/'') None False) ?opts [])
       = Some [''a'', ''b'', ''c'', ''d'']"
    by simp
  from convertArgs_stop [OF st, of "test_llm (Some ''https://api.openai.com/v1/'') None False"
      "[]" "[]" "[]"] free
  have b: "payload.stop (convertArgs (test_llm (Some ''https://api.openai.com/v1/'') None False) ?opts [])
       = Some [''a'', ''b'', ''c'', ''d'', ''e'', ''f'']"
    by blast
  from st base a n b show ?thesis by simp
qed

subsection \<open>The message converter\<close>

lemma map_of_spread_detail:
  "map_of (spread_detail obj) k =
     (if k = ''detail'' then Some ''low''
      else (case obj of None \<Rightarrow> None | Some kvs \<Rightarrow> map_of kvs k))"
  by (cases obj) (simp_all add: spread_detail_def update_conv')

text \<open>
  Claim C10. For a message whose content is a list of parts, \<open>_convertMessage\<close>
  gives every output part, text parts included, an \<open>image_url\<close> object whose
  \<open>detail\<close> is \<open>"low"\<close>, and keeps the role, the order, the types and the texts;
  a message with a string content is returned as it is.
\<close>

theorem convertMessage_detail_low:
  "(content m = CStr s \<longrightarrow> convertMessage m = m)
   \<and> (content m = CParts ps \<longrightarrow>
        role (convertMessage m) = role m
        \<and> (\<exists>qs. content (convertMessage m) = CParts qs \<and> length qs = length ps
              \<and> list_all (\<lambda>q. \<exists>obj. image_url q = Some obj \<and> map_of obj ''detail'' = Some ''low'') qs
              \<and> (\<forall>i<length ps.
                    part_type (qs ! i) = part_type (ps ! i)
                    \<and> part_text (qs ! i) = part_text (ps ! i)
                    \<and> image_url (qs ! i) = Some (spread_detail (imageUrl (ps ! i))))))"
  by (simp add: convertMessage_def convertPart_def list_all_iff map_of_spread_detail)

theorem convertMessage_detail_low_witness:
  "content \<lparr> role = ''user'', content = CStr ''hi'' \<rparr> = CStr ''hi''
   \<and> convertMessage \<lparr> role = ''user'', content = CStr ''hi'' \<rparr>
       = \<lparr> role = ''user'', content = CStr ''hi'' \<rparr>
   \<and> convertMessage
        \<lparr> role = ''user'',
          content = CParts
            [\<lparr> part_type = ''text'', part_text = Some ''a'', imageUrl = None, image_url = None \<rparr>,
             \<lparr> part_type = ''imageUrl'', part_text = None, imageUrl = Some [(''url'', ''u'')],
               image_url = None \<rparr>] \<rparr>
       = \<lparr> role = ''user'',
           content = CParts
             [\<lparr> part_type = ''text'', part_text = Some ''a'', imageUrl = None,
                image_url = Some [(''detail'', ''low'')] \<rparr>,
              \<lparr> part_type = ''imageUrl'', part_text = None, imageUrl = None,
                image_url = Some [(''url'', ''u''), (''detail'', ''low'')] \<rparr>] \<rparr>"
  using convertMessage_detail_low [of "\<lparr> role = ''user'', content = CStr ''hi'' \<rparr>" "''hi''" "[]"]
    convertMessage_detail_low
      [of "\<lparr> role = ''user'',
          content = CParts
            [\<lparr> part_type = ''text'', part_text = Some ''a'', imageUrl = None, image_url = None \<rparr>,
             \<lparr> part_type = ''imageUrl'', part_text = None, imageUrl = Some [(''url'', ''u'')],
               image_url = None \<rparr>] \<rparr>" "[]"
          "[\<lparr> part_type = ''text'', part_text = Some ''a'', imageUrl = None, image_url = None \<rparr>,
             \<lparr> part_type = ''imageUrl'', part_text = None, imageUrl = Some [(''url'', ''u'')],
               image_url = None \<rparr>]"]
  by (simp add: convertMessage_def convertPart_def spread_detail_def)

subsection \<open>The endpoint resolver\<close>










subsection \<open>The prompt of the legacy path\<close>

lemma stripImages_last_content:
  "stripImages sep (last_content msgs) =
     (if msgs = [] then [] else stripImages sep (content (last msgs)))"
  by (simp add: last_content_def stripImages_def)

text \<open>
  Claim C5. On the legacy path the prompt the dispatcher passes to the legacy
  streamer, and the streamer sends, is the content of the last message with the
  image parts stripped; it is the empty string when there are no messages. For the
  parts \<open>[{type: text, text: "a"}, {type: image, ...}]\<close> it is exactly \<open>"a"\<close>.
\<close>

theorem legacy_prompt:
  assumes "options.model opts \<notin> set CHAT_ONLY_MODELS"
    and "options.model opts \<in> set NON_CHAT_MODELS \<or> useLegacyCompletionsEndpoint this"
  shows "streamChat ext this msgs opts =
           (legacystreamComplete ext this
              (if msgs = [] then [] else stripImages (joiner ext) (content (last msgs))) opts)
           \<lparr> yielded :=
               map (\<lambda>c. JObj [(''role'', JStr ''assistant''), (''content'', c)])
                 (yielded (legacystreamComplete ext this
                    (if msgs = [] then [] else stripImages (joiner ext) (content (last msgs)))
                    opts)) \<rparr>
       \<and> (getEndpoint ext this Completions = Inr u \<longrightarrow>
            map (\<lambda>r. prompt (body r)) (sent (streamChat ext this msgs opts)) =
              [Some (if msgs = [] then [] else stripImages (joiner ext) (content (last msgs)))])
       \<and> stripImages sep
            (CParts [\<lparr> part_type = ''text'', part_text = Some ''a'', imageUrl = None,
                       image_url = None \<rparr>,
                     \<lparr> part_type = ''image'', part_text = None, imageUrl = Some img,
                       image_url = None \<rparr>]) = ''a''"
proof -
  let ?p = "if msgs = [] then [] else stripImages (joiner ext) (content (last msgs))"
  have run: "streamChat ext this msgs opts =
           (legacystreamComplete ext this ?p opts)
           \<lparr> yielded :=
               map (\<lambda>c. JObj [(''role'', JStr ''assistant''), (''content'', c)])
                 (yielded (legacystreamComplete ext this ?p opts)) \<rparr>"
    using assms
    by (simp add: streamChat_def array_includes_def legacy_branch_def Let_def
        stripImages_last_content)
  have req: "map (\<lambda>r. prompt (body r)) (sent (streamChat ext this msgs opts)) = [Some ?p]"
    if "getEndpoint ext this Completions = Inr u"
    unfolding run by (simp add: legacystreamComplete_run [OF that])
  have ex: "stripImages sep
            (CParts [\<lparr> part_type = ''text'', part_text = Some ''a'', imageUrl = None,
                       image_url = None \<rparr>,
                     \<lparr> part_type = ''image'', part_text = None, imageUrl = Some img,
                       image_url = None \<rparr>]) = ''a''"
    by (simp add: stripImages_def)
  from run req ex show ?thesis by blast
qed

theorem legacy_prompt_witness:
  "options.model (test_options ''davinci'' None) \<notin> set CHAT_ONLY_MODELS
   \<and> options.model (test_options ''davinci'' None) \<in> set NON_CHAT_MODELS
   \<and> getEndpoint (test_externals []) (test_llm (Some ''https://x/'') None False) Completions
       = Inr ''https://x/completions''
   \<and> map (\<lambda>r. prompt (body r))
        (sent (streamChat (test_externals []) (test_llm (Some ''https://x/'') None False)
           [\<lparr> role = ''system'', content = CStr ''s'' \<rparr>,
            \<lparr> role = ''user'',
              content = CParts
                [\<lparr> part_type = ''text'', part_text = Some ''a'', imageUrl = None,
                   image_url = None \<rparr>,
                 \<lparr> part_type = ''image'', part_text = None, imageUrl = Some [(''url'', ''u'')],
                   image_url = None \<rparr>] \<rparr>]
           (test_options ''davinci'' None)))
       = [Some ''a'']
   \<and> map (\<lambda>r. prompt (body r))
        (sent (streamChat (test_externals []) (test_llm (Some ''https://x/'') None False) []
           (test_options ''davinci'' None)))
       = [Some []]"
proof -
  let ?ext = "test_externals []"
  let ?llm = "test_llm (Some ''https://x/'') None False"
  let ?opts = "test_options ''davinci'' None"
  let ?msgs = "[\<lparr> role = ''system'', content = CStr ''s'' \<rparr>,
            \<lparr> role = ''user'',
              content = CParts
                [\<lparr> part_type = ''text'', part_text = Some ''a'', imageUrl = None,
                   image_url = None \<rparr>,
                 \<lparr> part_type = ''image'', part_text = None, imageUrl = Some [(''url'', ''u'')],
                   image_url = None \<rparr>] \<rparr>]"
  have m1: "options.model ?opts \<notin> set CHAT_ONLY_MODELS"
    by (simp add: test_options_def CHAT_ONLY_MODELS_def)
  have m2: "options.model ?opts \<in> set NON_CHAT_MODELS \<or> useLegacyCompletionsEndpoint ?llm"
    by (simp add: test_options_def NON_CHAT_MODELS_def)
  have ep: "getEndpoint ?ext ?llm Completions = Inr ''https://x/completions''"
    by (simp add: fixture_defs getEndpoint_def URL_def)
  from legacy_prompt
      [OF m1 m2, where ext = ?ext and msgs = ?msgs and u = "''https://x/completions''"
         and sep = "[]" and img = "[]", THEN conjunct2, THEN conjunct1, rule_format, OF ep]
  have a: "map (\<lambda>r. prompt (body r)) (sent (streamChat ?ext ?llm ?msgs ?opts)) = [Some ''a'']"
    by (simp add: stripImages_def test_externals_def)
  from legacy_prompt
      [OF m1 m2, where ext = ?ext and msgs = "[]" and u = "''https://x/completions''"
         and sep = "[]" and img = "[]", THEN conjunct2, THEN conjunct1, rule_format, OF ep]
  have b: "map (\<lambda>r. prompt (body r)) (sent (streamChat ?ext ?llm [] ?opts)) = [Some []]"
    by simp
  from m1 m2 ep a b show ?thesis
    by (simp add: test_options_def NON_CHAT_MODELS_def)
qed

subsection \<open>\<open>_complete\<close> concatenates\<close>

text \<open>
  A chunk the dispatcher yields is never \<open>null\<close> or \<open>undefined\<close>, so reading its
  content does not throw.
\<close>

lemma complete_loop_defined:
  "\<forall>c\<in>set cs. c \<noteq> JUndefined \<and> c \<noteq> JNull \<Longrightarrow>
     complete_loop sh acc cs = Inr (acc @ concat (map (\<lambda>c. to_string sh (getprop ''content'' c)) cs))"
  by (induction cs arbitrary: acc) (simp_all add: plain_defined)

lemma streamChat_chunks_defined:
  assumes "c \<in> set (yielded (streamChat ext this msgs opts))"
  shows "c \<noteq> JUndefined \<and> c \<noteq> JNull"
proof (cases "\<not> array_includes CHAT_ONLY_MODELS (options.model opts)
         \<and> (array_includes NON_CHAT_MODELS (options.model opts)
              \<or> useLegacyCompletionsEndpoint this)")
  case True
  with assms show ?thesis
    by (auto simp: streamChat_def legacy_branch_def Let_def)
next
  case False
  with assms have c: "c \<in> set (yielded (chat_branch ext this msgs opts))"
    by (simp add: streamChat_def)
  show ?thesis
  proof (cases "getEndpoint ext this ChatCompletions")
    case (Inl e)
    with c show ?thesis by (simp add: chat_branch_def Let_def)
  next
    case (Inr u)
    from c obtain v where "truthy (delta_content v)" and "c = choice_delta v"
      unfolding chat_branch_run [OF Inr] by (auto split: if_splits)
    then show ?thesis
      using opt_truthy_defined [of "getprop ''content''" "choice_delta v"]
      by (simp add: delta_content_def)
  qed
qed

text \<open>
  Claim C7. For every prompt and options, \<open>_complete\<close> returns the concatenation, in
  order, of the contents of the chunks of the chat call for the single user message
  with that prompt (and fails as that call fails); for chunks with the string
  contents \<open>ss\<close> it returns their concatenation, so over a stream that yields
  \<open>"a"\<close>, \<open>"b"\<close>, \<open>"c"\<close> it returns \<open>"abc"\<close>.
\<close>

theorem complete_concatenates:
  "complete ext this p opts =
     (case thrown (streamChat ext this [\<lparr> role = ''user'', content = CStr p \<rparr>] opts) of
        Some e \<Rightarrow> Inl e
      | None \<Rightarrow>
          Inr (concat (map (\<lambda>c. to_string (number_to_string ext) (getprop ''content'' c))
                 (yielded (streamChat ext this [\<lparr> role = ''user'', content = CStr p \<rparr>] opts)))))
   \<and> (thrown (streamChat ext this [\<lparr> role = ''user'', content = CStr p \<rparr>] opts) = None
        \<and> map (getprop ''content'')
             (yielded (streamChat ext this [\<lparr> role = ''user'', content = CStr p \<rparr>] opts))
           = map JStr ss
      \<longrightarrow> complete ext this p opts = Inr (concat ss))"
proof -
  let ?r = "streamChat ext this [\<lparr> role = ''user'', content = CStr p \<rparr>] opts"
  let ?sh = "number_to_string ext"
  have loop: "complete_loop ?sh [] (yielded ?r) =
      Inr (concat (map (\<lambda>c. to_string ?sh (getprop ''content'' c)) (yielded ?r)))"
  proof -
    have "\<forall>c\<in>set (yielded ?r). c \<noteq> JUndefined \<and> c \<noteq> JNull"
      using streamChat_chunks_defined by blast
    then show ?thesis by (rule complete_loop_defined [where acc = "[]", simplified])
  qed
  have gen: "complete ext this p opts =
     (case thrown ?r of
        Some e \<Rightarrow> Inl e
      | None \<Rightarrow> Inr (concat (map (\<lambda>c. to_string ?sh (getprop ''content'' c)) (yielded ?r))))"
    by (simp add: complete_def Let_def loop)
  have strs: "complete ext this p opts = Inr (concat ss)"
    if "thrown ?r = None" and "map (getprop ''content'') (yielded ?r) = map JStr ss"
  proof -
    have "map (\<lambda>c. to_string ?sh (getprop ''content'' c)) (yielded ?r)
            = map (to_string ?sh) (map (getprop ''content'') (yielded ?r))"
      by (simp add: comp_def)
    also have "\<dots> = ss"
      unfolding that(2) by (simp add: comp_def)
    finally show ?thesis using that(1) by (simp add: gen)
  qed
  from gen strs show ?thesis by blast
qed

theorem complete_concatenates_witness:
  "complete
     (test_externals
        [[(''choices'', JArr [JObj [(''delta'', JObj [(''content'', JStr ''a'')])]])],
         [(''choices'', JArr [JObj [(''delta'', JObj [(''content'', JStr ''b'')])]])],
         [(''choices'', JArr [JObj [(''delta'', JObj [(''content'', JStr ''c'')])]])]])
     (test_llm (Some ''https://x/'') None False) ''hi'' (test_options ''gpt-4'' None)
   = Inr ''abc''"
proof -
  let ?ext = "test_externals
        [[(''choices'', JArr [JObj [(''delta'', JObj [(''content'', JStr ''a'')])]])],
         [(''choices'', JArr [JObj [(''delta'', JObj [(''content'', JStr ''b'')])]])],
         [(''choices'', JArr [JObj [(''delta'', JObj [(''content'', JStr ''c'')])]])]]"
  let ?llm = "test_llm (Some ''https://x/'') None False"
  let ?opts = "test_options ''gpt-4'' None"
  let ?r = "streamChat ?ext ?llm [\<lparr> role = ''user'', content = CStr ''hi'' \<rparr>] ?opts"
  have ep: "getEndpoint ?ext ?llm ChatCompletions = Inr ''https://x/chat/completions''"
    by (simp add: fixture_defs getEndpoint_def URL_def)
  have chat: "?r = chat_branch ?ext ?llm [\<lparr> role = ''user'', content = CStr ''hi'' \<rparr>] ?opts"
    by (simp add: streamChat_def array_includes_def test_options_def CHAT_ONLY_MODELS_def)
  have t: "thrown ?r = None"
    unfolding chat by (simp add: chat_branch_run [OF ep])
  have y: "map (getprop ''content'') (yielded ?r) = map JStr [''a'', ''b'', ''c'']"
    unfolding chat
    by (simp add: chat_branch_run [OF ep])
      (simp add: fixture_defs delta_content_def choice_delta_def opt_def)
  from t y have "thrown ?r = None \<and> map (getprop ''content'') (yielded ?r) = map JStr [''a'', ''b'', ''c'']"
    by blast
  from complete_concatenates
      [where ext = ?ext and this = ?llm and p = "''hi''" and opts = ?opts
         and ss = "[''a'', ''b'', ''c'']", THEN conjunct2, rule_format, OF this]
  show ?thesis by simp
qed

subsection \<open>The messages of the chat payload\<close>

text \<open>
  Over the store, \<open>Array.prototype.map\<close> with either callback only appends objects:
  the store it was given is a prefix of the store it leaves, and the objects it
  returns hold the images of the ones it was given.
\<close>

lemma map_at_sound:
  assumes step: "\<And>h a b h1. a < length h \<Longrightarrow> f h a = (b, h1) \<Longrightarrow>
                   (\<exists>ys. h1 = h @ ys) \<and> b < length h1 \<and> h1 ! b = g (h ! a)"
  shows "\<forall>a\<in>set as. a < length h \<Longrightarrow> map_at f h as = (bs, h') \<Longrightarrow>
           (\<exists>ys. h' = h @ ys) \<and> (\<forall>b\<in>set bs. b < length h')
           \<and> map ((!) h') bs = map g (map ((!) h) as)"
proof (induction as arbitrary: h bs h')
  case Nil
  then show ?case by simp
next
  case (Cons a as)
  obtain b h1 where f: "f h a = (b, h1)" by (cases "f h a")
  obtain bs' h2 where rest: "map_at f h1 as = (bs', h2)" by (cases "map_at f h1 as")
  from Cons.prems f rest have res: "bs = b # bs'" "h' = h2" by simp_all
  from Cons.prems(1) have a: "a < length h" by simp
  from step [OF a f] obtain ys where h1: "h1 = h @ ys" and b: "b < length h1"
    and hb: "h1 ! b = g (h ! a)" by blast
  from Cons.prems(1) h1 have valid: "\<forall>a\<in>set as. a < length h1" by auto
  from Cons.IH [OF valid rest] obtain zs where h2: "h2 = h1 @ zs"
    and bs': "\<forall>b\<in>set bs'. b < length h2"
    and eq: "map ((!) h2) bs' = map g (map ((!) h1) as)" by blast
  have "h2 ! b = g (h ! a)"
    using b hb h2 by (simp add: nth_append)
  moreover have "map ((!) h1) as = map ((!) h) as"
    using Cons.prems(1) h1 by (simp add: nth_append)
  moreover have "b < length h2" using b h2 by simp
  ultimately show ?case
    using res h1 h2 bs' eq by simp
qed

lemma convertMessage_at_step:
  assumes "a < length h" and "convertMessage_at h a = (b, h1)"
  shows "(\<exists>ys. h1 = h @ ys) \<and> b < length h1 \<and> h1 ! b = convertMessage (h ! a)"
  using assms
  by (cases "content (h ! a)") (auto simp: convertMessage_at_def convertMessage_def alloc_def)

lemma fixEmpty_at_step:
  assumes "a < length h" and "fixEmpty_at h a = (b, h1)"
  shows "(\<exists>ys. h1 = h @ ys) \<and> b < length h1 \<and> h1 ! b = fixEmpty (h ! a)"
  using assms by (auto simp: fixEmpty_at_def fixEmpty_def alloc_def)

lemma map_at_fixEmpty_fresh:
  "map_at fixEmpty_at h as = (bs, h') \<Longrightarrow> \<forall>b\<in>set bs. length h \<le> b"
proof (induction as arbitrary: h bs h')
  case Nil
  then show ?case by simp
next
  case (Cons a as)
  obtain b h1 where f: "fixEmpty_at h a = (b, h1)" by (cases "fixEmpty_at h a")
  obtain bs' h2 where rest: "map_at fixEmpty_at h1 as = (bs', h2)"
    by (cases "map_at fixEmpty_at h1 as")
  from f have b: "b = length h" and h1: "length h1 = Suc (length h)"
    by (auto simp: fixEmpty_at_def alloc_def)
  from Cons.prems f rest have bs: "bs = b # bs'" by simp
  from Cons.IH [OF rest] h1 have "\<forall>b\<in>set bs'. length h \<le> b" by auto
  with bs b show ?case by simp
qed

lemma chat_messages_at_sound:
  assumes valid: "\<forall>a\<in>set as. a < length h"
    and run: "chat_messages_at h as = (cs, h')"
  shows "take (length h) h' = h \<and> (\<forall>c\<in>set cs. length h \<le> c \<and> c < length h')
         \<and> map ((!) h') cs = map (fixEmpty \<circ> convertMessage) (map ((!) h) as)"
proof -
  obtain bs h1 where conv: "map_at convertMessage_at h as = (bs, h1)"
    by (cases "map_at convertMessage_at h as")
  with run have fx: "map_at fixEmpty_at h1 bs = (cs, h')"
    by (simp add: chat_messages_at_def)
  from map_at_sound [of convertMessage_at convertMessage, OF convertMessage_at_step valid conv]
  obtain ys where h1: "h1 = h @ ys" and bs: "\<forall>b\<in>set bs. b < length h1"
    and eq1: "map ((!) h1) bs = map convertMessage (map ((!) h) as)" by blast
  from map_at_sound [of fixEmpty_at fixEmpty, OF fixEmpty_at_step bs fx]
  obtain zs where h': "h' = h1 @ zs" and cs: "\<forall>c\<in>set cs. c < length h'"
    and eq2: "map ((!) h') cs = map fixEmpty (map ((!) h1) bs)" by blast
  from map_at_fixEmpty_fresh [OF fx] h1 have fresh: "\<forall>c\<in>set cs. length h \<le> c" by auto
  from h1 h' have "take (length h) h' = h" by simp
  moreover from eq1 eq2 have "map ((!) h') cs = map (fixEmpty \<circ> convertMessage) (map ((!) h) as)"
    by simp
  ultimately show ?thesis using cs fresh by blast
qed

lemma fixEmpty_convertMessage:
  "role (fixEmpty (convertMessage m)) = role m
   \<and> (content m = CStr [] \<longrightarrow> content (fixEmpty (convertMessage m)) = CStr '' '')
   \<and> (content m = CStr s \<and> s \<noteq> [] \<longrightarrow> content (fixEmpty (convertMessage m)) = CStr s)
   \<and> (content m = CParts ps \<longrightarrow>
        content (fixEmpty (convertMessage m)) = CParts (map convertPart ps))"
  by (cases "content m") (simp_all add: fixEmpty_def convertMessage_def)

text \<open>
  Claim C4, as amended. On the chat path every message whose content is the empty
  string is transmitted with the content \<open>" "\<close>, every other message with a string
  content is transmitted with its content unchanged, and a message whose content is
  a list of parts is transmitted with the parts as \<open>_convertMessage\<close> rewrites them;
  roles and order are kept. The call writes to no message object of the caller: the
  transmitted messages are new objects, and the store the caller's messages live in
  is unchanged at every address it had.
\<close>

theorem chat_payload_messages:
  assumes "options.model opts \<in> set CHAT_ONLY_MODELS
           \<or> (options.model opts \<notin> set NON_CHAT_MODELS \<and> \<not> useLegacyCompletionsEndpoint this)"
  shows "(getEndpoint ext this ChatCompletions = Inr u \<longrightarrow>
            map (messages \<circ> body) (sent (streamChat ext this msgs opts))
              = [Some (map (fixEmpty \<circ> convertMessage) msgs)])
       \<and> role (fixEmpty (convertMessage m)) = role m
       \<and> (content m = CStr [] \<longrightarrow> content (fixEmpty (convertMessage m)) = CStr '' '')
       \<and> (content m = CStr s \<and> s \<noteq> [] \<longrightarrow> content (fixEmpty (convertMessage m)) = CStr s)
       \<and> (content m = CParts ps \<longrightarrow>
            content (fixEmpty (convertMessage m)) = CParts (map convertPart ps))
       \<and> ((\<forall>a\<in>set as. a < length h) \<and> chat_messages_at h as = (cs, h') \<longrightarrow>
            take (length h) h' = h
            \<and> (\<forall>c\<in>set cs. length h \<le> c \<and> c < length h')
            \<and> map ((!) h') cs = map (fixEmpty \<circ> convertMessage) (map ((!) h) as))"
proof -
  from assms have chat: "streamChat ext this msgs opts = chat_branch ext this msgs opts"
    by (auto simp: streamChat_def array_includes_def)
  have wire: "map (messages \<circ> body) (sent (streamChat ext this msgs opts))
              = [Some (map (fixEmpty \<circ> convertMessage) msgs)]"
    if "getEndpoint ext this ChatCompletions = Inr u"
    unfolding chat by (simp add: chat_branch_run [OF that])
  from wire fixEmpty_convertMessage [of m s ps] chat_messages_at_sound [of as h cs h']
  show ?thesis by blast
qed

theorem chat_payload_messages_witness:
  "options.model (test_options ''gpt-4'' None) \<in> set CHAT_ONLY_MODELS
   \<and> getEndpoint (test_externals []) (test_llm (Some ''https://x/'') None True) ChatCompletions
       = Inr ''https://x/chat/completions''
   \<and> map (messages \<circ> body)
        (sent (streamChat (test_externals []) (test_llm (Some ''https://x/'') None True)
           [\<lparr> role = ''system'', content = CStr [] \<rparr>,
            \<lparr> role = ''user'', content = CStr ''hi'' \<rparr>]
           (test_options ''gpt-4'' None)))
       = [Some [\<lparr> role = ''system'', content = CStr '' '' \<rparr>,
                \<lparr> role = ''user'', content = CStr ''hi'' \<rparr>]]
   \<and> content (fixEmpty (convertMessage \<lparr> role = ''system'', content = CStr [] \<rparr>)) = CStr '' ''
   \<and> content (fixEmpty (convertMessage \<lparr> role = ''user'', content = CStr ''hi'' \<rparr>)) = CStr ''hi''
   \<and> content (fixEmpty (convertMessage
        \<lparr> role = ''user'',
          content = CParts [\<lparr> part_type = ''text'', part_text = Some ''a'', imageUrl = None,
                              image_url = None \<rparr>] \<rparr>))
       = CParts [\<lparr> part_type = ''text'', part_text = Some ''a'', imageUrl = None,
                   image_url = Some [(''detail'', ''low'')] \<rparr>]
   \<and> chat_messages_at
        [\<lparr> role = ''system'', content = CStr [] \<rparr>,
         \<lparr> role = ''user'',
           content = CParts [\<lparr> part_type = ''text'', part_text = Some ''a'', imageUrl = None,
                               image_url = None \<rparr>] \<rparr>]
        [0, 1]
       = ([3, 4],
          [\<lparr> role = ''system'', content = CStr [] \<rparr>,
           \<lparr> role = ''user'',
             content = CParts [\<lparr> part_type = ''text'', part_text = Some ''a'', imageUrl = None,
                                 image_url = None \<rparr>] \<rparr>,
           \<lparr> role = ''user'',
             content = CParts [\<lparr> part_type = ''text'', part_text = Some ''a'', imageUrl = None,
                                 image_url = Some [(''detail'', ''low'')] \<rparr>] \<rparr>,
           \<lparr> role = ''system'', content = CStr '' '' \<rparr>,
           \<lparr> role = ''user'',
             content = CParts [\<lparr> part_type = ''text'', part_text = Some ''a'', imageUrl = None,
                                 image_url = Some [(''detail'', ''low'')] \<rparr>] \<rparr>])"
proof -
  let ?ext = "test_externals []"
  let ?llm = "test_llm (Some ''https://x/'') None True"
  let ?opts = "test_options ''gpt-4'' None"
  let ?m0 = "\<lparr> role = ''system'', content = CStr [] \<rparr>"
  let ?m1 = "\<lparr> role = ''user'', content = CStr ''hi'' \<rparr>"
  let ?p = "\<lparr> part_type = ''text'', part_text = Some ''a'', imageUrl = None, image_url = None \<rparr>"
  let ?q = "\<lparr> part_type = ''text'', part_text = Some ''a'', imageUrl = None,
              image_url = Some [(''detail'', ''low'')] \<rparr>"
  let ?m2 = "\<lparr> role = ''user'', content = CParts [?p] \<rparr>"
  let ?h = "[?m0, ?m2]"
  let ?h' = "[?m0, ?m2, \<lparr> role = ''user'', content = CParts [?q] \<rparr>,
              \<lparr> role = ''system'', content = CStr '' '' \<rparr>,
              \<lparr> role = ''user'', content = CParts [?q] \<rparr>]"
  have model: "options.model ?opts \<in> set CHAT_ONLY_MODELS"
    by (simp add: test_options_def CHAT_ONLY_MODELS_def)
  then have route: "options.model ?opts \<in> set CHAT_ONLY_MODELS
           \<or> (options.model ?opts \<notin> set NON_CHAT_MODELS \<and> \<not> useLegacyCompletionsEndpoint ?llm)"
    by blast
  have ep: "getEndpoint ?ext ?llm ChatCompletions = Inr ''https://x/chat/completions''"
    by (simp add: fixture_defs getEndpoint_def URL_def)
  have store: "chat_messages_at ?h [0, 1] = ([3, 4], ?h')"
    by (simp add: chat_messages_at_def convertMessage_at_def fixEmpty_at_def alloc_def
        convertPart_def spread_detail_def)
  note T = chat_payload_messages [OF route, where ext = ?ext and u = "''https://x/chat/completions''"
      and as = "[0, 1]" and h = ?h and cs = "[3, 4]" and h' = ?h']
  from T [where msgs = "[?m0, ?m1]" and m = ?m0 and s = "[]" and ps = "[]"] ep
  have wire: "map (messages \<circ> body) (sent (streamChat ?ext ?llm [?m0, ?m1] ?opts))
       = [Some [\<lparr> role = ''system'', content = CStr '' '' \<rparr>, ?m1]]"
    and empty: "content (fixEmpty (convertMessage ?m0)) = CStr '' ''"
    by (simp_all add: fixEmpty_def convertMessage_def)
  from T [where msgs = "[]" and m = ?m1 and s = "''hi''" and ps = "[]"]
  have str: "content (fixEmpty (convertMessage ?m1)) = CStr ''hi''"
    by simp
  from T [where msgs = "[]" and m = ?m2 and s = "[]" and ps = "[?p]"] store
  have parts: "content (fixEmpty (convertMessage ?m2)) = CParts [?q]"
    and frame: "take (length ?h) ?h' = ?h"
    by (simp_all add: convertPart_def spread_detail_def)
  from model ep wire empty str parts store show ?thesis
    by simp
qed

text \<open>
  Claim C4 as stated has the content of every message other than the empty string
  transmitted unchanged. A content that is a list of parts is not: the text part
  \<open>{type: "text", text: "a"}\<close> is transmitted with an \<open>image_url\<close> added.
\<close>

theorem parts_content_rewritten_counterexample:
  "map (messages \<circ> body)
     (sent (streamChat (test_externals []) (test_llm (Some ''https://x/'') None False)
        [\<lparr> role = ''user'',
           content = CParts [\<lparr> part_type = ''text'', part_text = Some ''a'', imageUrl = None,
                               image_url = None \<rparr>] \<rparr>]
        (test_options ''gpt-4'' None)))
     = [Some [\<lparr> role = ''user'',
                content = CParts [\<lparr> part_type = ''text'', part_text = Some ''a'',
                                    imageUrl = None,
                                    image_url = Some [(''detail'', ''low'')] \<rparr>] \<rparr>]]
   \<and> CParts [\<lparr> part_type = ''text'', part_text = Some ''a'', imageUrl = None,
               image_url = Some [(''detail'', ''low'')] \<rparr>]
       \<noteq> CParts [\<lparr> part_type = ''text'', part_text = Some ''a'', imageUrl = None,
                    image_url = None \<rparr>]"
  by (simp add: fixture_defs run_defs Let_def fixEmpty_def convertMessage_def convertPart_def
      spread_detail_def)

end
